theory Spec2Isabelle
  imports Complex_Main "HOL-Library.Product_Lexorder" "HOL-Library.Multiset"
begin

section \<open>Data model\<close>

text \<open>
  The pipeline of \<^verbatim>\<open>frb/search.py\<close> and \<^verbatim>\<open>frb/utils.py\<close> works on numpy arrays of
  floating-point intensities. An image is a list of rows; intensities are idealised as
  real numbers (no NaN, no rounding). Library routines whose numerics are not part of
  the repository (connected-component labelling, the Levenberg-Marquardt solver, DBSCAN,
  the Rayleigh fit, percentiles, morphological opening, the disk filters) are parameters
  of the model; everything the repository itself computes is written out.
\<close>

type_synonym image = "real list list"

datatype error =
    NoIntensityRegionException
  | UnboundLocalError
  | ValueError
  | TypeError
  | KeyError

text \<open>\<^verbatim>\<open>skimage.measure.regionprops\<close>: the attributes of a region the code reads.
  The bounding box is \<^verbatim>\<open>(min_row, min_col, max_row, max_col)\<close>, half-open.\<close>

record region_props =
  bbox :: "nat \<times> nat \<times> nat \<times> nat"
  area :: nat
  intensity_image :: image

text \<open>\<^verbatim>\<open>astropy.modeling.models.Gaussian2D\<close>: the six fitted parameters.\<close>

record gaussian2d =
  amplitude :: real
  x_mean :: real
  y_mean :: real
  x_stddev :: real
  y_stddev :: real
  theta :: real

text \<open>\<^verbatim>\<open>candidates.Candidate(t, dm)\<close>; the arrival time is counted in seconds.\<close>

record candidate =
  time :: real
  dm :: real

section \<open>The ellipse fitter\<close>

text \<open>\<^verbatim>\<open>data.ravel()\<close>: the pixels of a 2D array in row-major order.\<close>

definition ravel :: "'a list list \<Rightarrow> 'a list" where
  "ravel data = concat data"

text \<open>\<^verbatim>\<open>np.unique\<close>: the sorted distinct values.\<close>

definition np_unique :: "'a::linorder list \<Rightarrow> 'a list" where
  "np_unique xs = remdups_adj (sort xs)"

text \<open>Row-major positions of a 2D array, and \<^verbatim>\<open>np.unravel_index(np.argmax(data), shape)\<close>:
  the first position, in row-major order, that holds the maximum.\<close>

definition indices :: "'a list list \<Rightarrow> (nat \<times> nat) list" where
  "indices data = concat (map (\<lambda>r. map (\<lambda>c. (r, c)) [0..<length (data ! r)]) [0..<length data])"

definition pixel :: "'a list list \<Rightarrow> nat \<times> nat \<Rightarrow> 'a" where
  "pixel data p = data ! fst p ! snd p"

fun first_max :: "('a \<Rightarrow> real) \<Rightarrow> 'a \<Rightarrow> 'a list \<Rightarrow> 'a" where
  "first_max f best [] = best"
| "first_max f best (p # ps) = first_max f (if f best < f p then p else best) ps"

definition argmax2d :: "image \<Rightarrow> nat \<times> nat" where
  "argmax2d data = (case indices data of [] \<Rightarrow> (0, 0) | p # ps \<Rightarrow> first_max (pixel data) p ps)"

text \<open>
  \<^verbatim>\<open>infer_gaussian(data)\<close>, lines 461-476: amplitude, position of the maximum, and the
  rough width from the numbers of pixels above half maximum in the row and in the column
  through the peak. It is only called on a patch with at least one pixel.
\<close>

definition infer_gaussian :: "image \<Rightarrow> real \<times> real \<times> real \<times> real" where
  "infer_gaussian data =
     (let p = argmax2d data;
          amplitude = pixel data p;
          row = data ! fst p;
          column = map (\<lambda>r. r ! snd p) data;
          dx = length (filter (\<lambda>v. v - amplitude / 2 > 0) row);
          dy = length (filter (\<lambda>v. v - amplitude / 2 > 0) column);
          width = sqrt (real dx ^ 2 + real dy ^ 2)
      in (amplitude, real (fst p), real (snd p), width))"

text \<open>
  The solver call \<^verbatim>\<open>fitting.LevMarLSQFitter()(g, x, y, data)\<close> is a parameter: it maps
  the initial model, the bounds on \<^verbatim>\<open>x_mean\<close> and \<^verbatim>\<open>y_mean\<close> and the data to the fitted
  model. Whatever the solver does with a poor start (it returns its best effort and
  warns), it never raises \<^verbatim>\<open>NoIntensityRegionException\<close>, which only this module defines.
\<close>

type_synonym fitter = "gaussian2d \<Rightarrow> real \<times> real \<Rightarrow> real \<times> real \<Rightarrow> image \<Rightarrow> gaussian2d"

text \<open>
  \<^verbatim>\<open>fit_elliplse(prop, plot=False)\<close>, lines 382-397 and 427. Indexing the unique values
  at 1 raises \<^verbatim>\<open>IndexError\<close> when there are fewer than two of them, which the code turns
  into \<^verbatim>\<open>NoIntensityRegionException\<close>. Plotting (lines 402-425) draws the result and does
  not change it.
\<close>

definition fit_elliplse :: "fitter \<Rightarrow> region_props \<Rightarrow> error + gaussian2d" where
  "fit_elliplse fit_g prop =
     (let data = intensity_image prop;
          u = np_unique (sort (ravel data))
      in if length u \<le> 1 then Inl NoIntensityRegionException
         else
           (let data = map (map (\<lambda>v. v - u ! 1)) data;
                data = map (map (\<lambda>v. if v < 0 then 0 else v)) data;
                (amp, x_0, y_0, width) = infer_gaussian data;
                x_lims = (0, real (length data));
                y_lims = (0, real (length (data ! 0)));
                g = \<lparr>amplitude = amp, x_mean = x_0, y_mean = y_0,
                     x_stddev = 0.5 * width, y_stddev = 0.5 * width, theta = 0\<rparr>
            in Inr (fit_g g x_lims y_lims data)))"

section \<open>The amplitude threshold estimator\<close>

text \<open>\<^verbatim>\<open>np.argmax\<close> of a non-empty vector: the first index that holds the maximum.\<close>

definition np_argmax :: "'a::linorder list \<Rightarrow> nat" where
  "np_argmax xs = length (takeWhile (\<lambda>x. x \<noteq> Max (set xs)) xs)"

text \<open>
  Lines 99-100 of \<^verbatim>\<open>utils.py\<close>: \<^verbatim>\<open>np.unique(labels, return_counts=True)\<close> gives the
  sorted distinct labels and how often each occurs; the label chosen as the largest
  cluster is the first most frequent of them.
\<close>

definition largest_cluster_label :: "int list \<Rightarrow> int" where
  "largest_cluster_label labels =
     (let unique = np_unique labels;
          unique_counts = map (count_list labels) unique
      in unique ! np_argmax unique_counts)"

text \<open>\<^verbatim>\<open>data[mask]\<close> for a boolean mask computed from the labels and the data.\<close>

definition select :: "(int \<Rightarrow> real \<Rightarrow> bool) \<Rightarrow> int list \<Rightarrow> real list \<Rightarrow> real list" where
  "select P labels data = map snd (filter (\<lambda>(l, d). P l d) (zip labels data))"

text \<open>
  \<^verbatim>\<open>find_clusters_ell_amplitudes(amplitudes, min_samples, leaf_size, eps)\<close>, lines 83-110.
  \<^verbatim>\<open>DBSCAN(eps, min_samples, leaf_size).fit(data_).labels_\<close> is the parameter \<open>dbscan\<close>
  (one label per amplitude, \<open>-1\<close> for an outlier; \<^verbatim>\<open>leaf_size\<close> only tunes its search
  tree); \<open>rayleigh_tail\<close> is \<^verbatim>\<open>rayleigh(*rayleigh.fit(xs)).ppf(0.999)\<close>.
  \<^verbatim>\<open>np.max\<close> of an empty array and \<^verbatim>\<open>min\<close> of an empty selection raise \<^verbatim>\<open>ValueError\<close>.
  The logarithms of line 84, the mask of the core samples and the number of clusters
  (lines 94-98) are computed and never used.
\<close>

definition find_clusters_ell_amplitudes ::
  "(real \<Rightarrow> nat \<Rightarrow> real list \<Rightarrow> int list) \<Rightarrow> (real list \<Rightarrow> real) \<Rightarrow>
   real list \<Rightarrow> nat \<Rightarrow> real option \<Rightarrow> error + real" where
  "find_clusters_ell_amplitudes dbscan rayleigh_tail amplitudes min_samples eps =
     (let data = amplitudes
      in if data = [] then Inl ValueError
         else
           (let data_range = Max (set data) - Min (set data);
                eps = (case eps of None \<Rightarrow> data_range / sqrt (real (length amplitudes))
                       | Some e \<Rightarrow> e);
                labels = dbscan eps min_samples data;
                largest_cluster_data = select (\<lambda>l d. l = largest_cluster_label labels) labels data;
                outliers = select (\<lambda>l d. l = - 1) labels data;
                threshold = rayleigh_tail largest_cluster_data;
                indx = select (\<lambda>l d. l = - 1 \<and> d > threshold) labels data
            in if indx = [] then Inl ValueError else Inr (Min (set indx) - eps)))"

section \<open>The candidate searches\<close>

subsection \<open>Size thresholds: \<^verbatim>\<open>search_candidates\<close>\<close>

text \<open>
  \<^verbatim>\<open>scipy.ndimage.label(a, structure=s)\<close> returns the labelled array (0 is background,
  the regions are numbered from 1) and the number of regions, which is the largest
  label. The labelled array is the input of the model.
\<close>

type_synonym labeled = "nat list list"

definition num_features :: "labeled \<Rightarrow> nat" where
  "num_features lab = fold max (ravel lab) 0"

definition label_positions :: "labeled \<Rightarrow> nat \<Rightarrow> (nat \<times> nat) list" where
  "label_positions lab l = filter (\<lambda>p. pixel lab p = l) (indices lab)"

text \<open>
  \<^verbatim>\<open>scipy.ndimage.find_objects\<close>: for every label from 1 to the largest one, the pair of
  row and column slices \<open>(start, stop)\<close> that bound its pixels, or \<^verbatim>\<open>None\<close> when the label
  does not occur.
\<close>

definition find_object :: "labeled \<Rightarrow> nat \<Rightarrow> ((nat \<times> nat) \<times> (nat \<times> nat)) option" where
  "find_object lab l =
     (case label_positions lab l of
        [] \<Rightarrow> None
      | p # ps \<Rightarrow>
          Some ((Min (set (map fst (p # ps))), Suc (Max (set (map fst (p # ps))))),
                (Min (set (map snd (p # ps))), Suc (Max (set (map snd (p # ps)))))))"

definition find_objects :: "labeled \<Rightarrow> ((nat \<times> nat) \<times> (nat \<times> nat)) option list" where
  "find_objects lab = map (find_object lab) [1..<Suc (num_features lab)]"

text \<open>
  \<^verbatim>\<open>scipy.ndimage.maximum_position(image, labels=lab, index=l)\<close>: a position of the
  largest intensity among the pixels labelled \<open>l\<close>. When several pixels of the label hold
  the largest intensity, the one scipy answers with depends on the order in which its
  sort leaves equal values, which numpy does not fix. That choice is the parameter
  \<open>pick\<close>: it is handed the maximal pixels of the label, in row-major order, and
  returns the one scipy answers with. The query is only made for labels that occur.
\<close>

type_synonym tie_break = "(nat \<times> nat) list \<Rightarrow> nat \<times> nat"

definition maximum_position :: "tie_break \<Rightarrow> image \<Rightarrow> labeled \<Rightarrow> nat \<Rightarrow> nat \<times> nat" where
  "maximum_position pick img lab l =
     (let ps = label_positions lab l;
          top = Max (set (map (pixel img) ps))
      in pick (filter (\<lambda>p. pixel img p = top) ps))"

text \<open>The structured array \<^verbatim>\<open>_objects\<close> of lines 127-131.\<close>

record object =
  label :: nat
  dx :: nat
  dy :: nat
  max_pos :: "nat \<times> nat"

text \<open>
  Lines 119-147 of \<^verbatim>\<open>search_candidates\<close>: the accepted objects in the order in which
  the candidates are emitted. Reading the slices of an object that is \<^verbatim>\<open>None\<close> raises
  \<^verbatim>\<open>TypeError\<close>. \<^verbatim>\<open>np.empty\<close> leaves \<^verbatim>\<open>max_pos\<close> undetermined until line 145 fills it
  for every object that is kept. When no object is kept (also when the image has no
  region at all), \<^verbatim>\<open>maximum_position\<close> answers with an empty list, and assigning it to
  the field of shape \<open>(0, 2)\<close> at line 145 raises \<^verbatim>\<open>ValueError\<close>: the shapes \<open>(0,)\<close> and
  \<open>(0, 2)\<close> cannot be broadcast. \<^verbatim>\<open>np.lexsort((dx, dy))\<close> is the stable sort by \<^verbatim>\<open>dy\<close>,
  then \<^verbatim>\<open>dx\<close>, and \<^verbatim>\<open>[::-1]\<close> reverses the result.
\<close>

definition search_objects ::
  "tie_break \<Rightarrow> image \<Rightarrow> labeled \<Rightarrow> real \<Rightarrow> real \<Rightarrow> error + object list" where
  "search_objects pick img labeled_array n_d_x n_d_y =
     (case those (find_objects labeled_array) of
        None \<Rightarrow> Inl TypeError
      | Some objects \<Rightarrow>
          (let labels = [1..<Suc (num_features labeled_array)];
               dxs = map (\<lambda>obj. snd (snd obj) - fst (snd obj)) objects;
               dys = map (\<lambda>obj. snd (fst obj) - fst (fst obj)) objects;
               objs = map (\<lambda>(l, x, y). \<lparr>label = l, dx = x, dy = y, max_pos = (0, 0)\<rparr>)
                        (zip labels (zip dxs dys));
               objs = filter (\<lambda>ob. real (dy ob) > n_d_y \<and> real (dx ob) > n_d_x) objs
           in if objs = [] then Inl ValueError
              else
                (let objs = map (\<lambda>ob. ob\<lparr>max_pos :=
                                   maximum_position pick img labeled_array (label ob)\<rparr>) objs;
                     objs = rev (sort_key (\<lambda>ob. (dy ob, dx ob)) objs)
                 in Inr objs)))"

text \<open>Lines 149-156: one candidate per accepted object.\<close>

definition search_candidates ::
  "tie_break \<Rightarrow> image \<Rightarrow> labeled \<Rightarrow> real \<Rightarrow> real \<Rightarrow> real \<Rightarrow> real \<Rightarrow> real \<Rightarrow>
   error + candidate list" where
  "search_candidates pick img labeled_array n_d_x n_d_y t_0 d_t d_dm =
     (case search_objects pick img labeled_array n_d_x n_d_y of
        Inl e \<Rightarrow> Inl e
      | Inr objs \<Rightarrow>
          Inr (map (\<lambda>ob. \<lparr>time = t_0 + real (snd (max_pos ob)) * d_t,
                           dm = real (fst (max_pos ob)) * d_dm\<rparr>) objs))"

subsection \<open>Ellipse shape: \<^verbatim>\<open>search_candidates_ell\<close>\<close>

text \<open>\<^verbatim>\<open>np.rad2deg\<close>, and \<^verbatim>\<open>%\<close> on floats (the result has the sign of the divisor).\<close>

definition rad2deg :: "real \<Rightarrow> real" where
  "rad2deg x = x * (180 / pi)"

definition py_mod :: "real \<Rightarrow> real \<Rightarrow> real" where
  "py_mod x y = x - of_int \<lfloor>x / y\<rfloor> * y"

text \<open>
  The condition of lines 207-211 on a fitted model. The arguments \<^verbatim>\<open>x_stddev\<close> and
  \<^verbatim>\<open>amplitude\<close> of the source are called \<open>x_stddev_arg\<close> and \<open>amplitude_arg\<close> here, to
  keep them apart from the model's parameters. Python's \<^verbatim>\<open>and\<close> stops at the first
  false conjunct, so the quotient is only formed when \<^verbatim>\<open>gg.x_stddev\<close> is not zero.
\<close>

definition ell_accepts ::
  "gaussian2d \<Rightarrow> real \<Rightarrow> real \<Rightarrow> real \<Rightarrow> real \<times> real \<Rightarrow> real \<Rightarrow> bool" where
  "ell_accepts gg x_stddev_arg x_cos_theta y_to_x_stddev theta_lims amplitude_arg \<longleftrightarrow>
     \<bar>x_stddev gg\<bar> > \<bar>x_stddev_arg\<bar> \<and>
     \<bar>x_stddev gg * cos (theta gg)\<bar> > x_cos_theta \<and>
     \<bar>y_stddev gg / x_stddev gg\<bar> < y_to_x_stddev \<and>
     amplitude gg > amplitude_arg \<and>
     fst theta_lims < py_mod (rad2deg (theta gg)) 180 \<and>
     py_mod (rad2deg (theta gg)) 180 < snd theta_lims"

text \<open>
  Lines 171-178: the amplitudes of the regions that can be fitted, zero amplitudes left
  out. Only \<^verbatim>\<open>NoIntensityRegionException\<close> is caught.
\<close>

fun fitted_amplitudes :: "fitter \<Rightarrow> region_props list \<Rightarrow> error + real list" where
  "fitted_amplitudes fit_g [] = Inr []"
| "fitted_amplitudes fit_g (prop # props) =
     (case fit_elliplse fit_g prop of
        Inl NoIntensityRegionException \<Rightarrow> fitted_amplitudes fit_g props
      | Inl e \<Rightarrow> Inl e
      | Inr gg \<Rightarrow>
          (case fitted_amplitudes fit_g props of
             Inl e \<Rightarrow> Inl e
           | Inr amplitudes \<Rightarrow>
               Inr (if amplitude gg \<noteq> 0 then amplitude gg # amplitudes else amplitudes)))"

text \<open>
  Lines 182-199 print the threshold and draw two histograms of \<^verbatim>\<open>amplitudes\<close>, whatever
  \<^verbatim>\<open>save_fig\<close> is. The local variable \<^verbatim>\<open>amplitudes\<close> is only bound by line 171, inside
  \<^verbatim>\<open>if amplitude is None\<close>; it is \<open>None\<close> here while it is unbound, and reading it then
  raises \<^verbatim>\<open>UnboundLocalError\<close>. The drawing itself leaves no trace in the result.
\<close>

definition plot_histograms :: "real list option \<Rightarrow> real \<Rightarrow> error + unit" where
  "plot_histograms amplitudes amplitude_arg =
     (case amplitudes of None \<Rightarrow> Inl UnboundLocalError | Some amps \<Rightarrow> Inr ())"

text \<open>
  Lines 202-222, the loop over the regions. An accepted region is fitted a second
  time (line 212, where the figure is saved if \<^verbatim>\<open>save_fig\<close> is set) and its candidate is
  built from that fit.
\<close>

fun ell_loop ::
  "fitter \<Rightarrow> real \<Rightarrow> real \<Rightarrow> real \<Rightarrow> real \<times> real \<Rightarrow> real \<Rightarrow> real \<Rightarrow> real \<Rightarrow> real \<Rightarrow>
   region_props list \<Rightarrow> error + candidate list" where
  "ell_loop fit_g x_stddev_arg x_cos_theta y_to_x_stddev theta_lims t_0 d_t d_dm amplitude_arg [] =
     Inr []"
| "ell_loop fit_g x_stddev_arg x_cos_theta y_to_x_stddev theta_lims t_0 d_t d_dm amplitude_arg
     (prop # props) =
     (case fit_elliplse fit_g prop of
        Inl NoIntensityRegionException \<Rightarrow>
          ell_loop fit_g x_stddev_arg x_cos_theta y_to_x_stddev theta_lims t_0 d_t d_dm
            amplitude_arg props
      | Inl e \<Rightarrow> Inl e
      | Inr gg \<Rightarrow>
          if ell_accepts gg x_stddev_arg x_cos_theta y_to_x_stddev theta_lims amplitude_arg
          then
            (case fit_elliplse fit_g prop of
               Inl e \<Rightarrow> Inl e
             | Inr gg \<Rightarrow>
                 (let max_pos = (x_mean gg + real (fst (bbox prop)),
                                 y_mean gg + real (fst (snd (bbox prop))));
                      candidate = \<lparr>time = t_0 + snd max_pos * d_t, dm = fst max_pos * d_dm\<rparr>
                  in case ell_loop fit_g x_stddev_arg x_cos_theta y_to_x_stddev theta_lims
                            t_0 d_t d_dm amplitude_arg props of
                       Inl e \<Rightarrow> Inl e
                     | Inr candidates \<Rightarrow> Inr (candidate # candidates)))
          else
            ell_loop fit_g x_stddev_arg x_cos_theta y_to_x_stddev theta_lims t_0 d_t d_dm
              amplitude_arg props)"

text \<open>
  \<^verbatim>\<open>search_candidates_ell\<close>, lines 163-224. \<open>props\<close> is the list that
  \<^verbatim>\<open>regionprops(labeled_array, intensity_image=image)\<close> returns for the image. The
  threshold estimator is called with its defaults (\<^verbatim>\<open>min_samples=10\<close>, \<^verbatim>\<open>eps=None\<close>).
  The pair \<open>(amplitude, amplitudes)\<close> is the state of the two local variables after
  line 179.
\<close>

definition search_candidates_ell ::
  "fitter \<Rightarrow> (real \<Rightarrow> nat \<Rightarrow> real list \<Rightarrow> int list) \<Rightarrow> (real list \<Rightarrow> real) \<Rightarrow>
   region_props list \<Rightarrow> real \<Rightarrow> real \<Rightarrow> real \<Rightarrow> real \<times> real \<Rightarrow> real \<Rightarrow> real \<Rightarrow> real \<Rightarrow>
   real option \<Rightarrow> error + candidate list" where
  "search_candidates_ell fit_g dbscan rayleigh_tail props x_stddev_arg x_cos_theta y_to_x_stddev
     theta_lims t_0 d_t d_dm amplitude_arg =
     (case (case amplitude_arg of
              None \<Rightarrow>
                (case fitted_amplitudes fit_g props of
                   Inl e \<Rightarrow> Inl e
                 | Inr amplitudes \<Rightarrow>
                     (case find_clusters_ell_amplitudes dbscan rayleigh_tail amplitudes 10 None of
                        Inl e \<Rightarrow> Inl e
                      | Inr a \<Rightarrow> Inr (a, Some amplitudes)))
            | Some a \<Rightarrow> Inr (a, None)) of
        Inl e \<Rightarrow> Inl e
      | Inr (a, amplitudes) \<Rightarrow>
          (case plot_histograms amplitudes a of
             Inl e \<Rightarrow> Inl e
           | Inr _ \<Rightarrow>
               ell_loop fit_g x_stddev_arg x_cos_theta y_to_x_stddev theta_lims t_0 d_t d_dm a
                 props))"

subsection \<open>Trained classifier: \<^verbatim>\<open>search_candidates_clf\<close>\<close>



subsection \<open>The conversion of the specification\<close>

text \<open>
  Section 4.6 of the specification: a peak position \<open>(row, col)\<close> becomes the candidate
  with \<open>time = t0 + col * d_t\<close> and \<open>dm = row * d_dm\<close>; and the inverse mapping of its
  round-trip property, \<open>col = (time - t0) / d_t\<close> and \<open>row = dm / d_dm\<close>.
\<close>

definition candidate_builder :: "real \<Rightarrow> real \<Rightarrow> real \<Rightarrow> real \<times> real \<Rightarrow> candidate" where
  "candidate_builder t0 d_t d_dm pos = \<lparr>time = t0 + snd pos * d_t, dm = fst pos * d_dm\<rparr>"

definition inverse_mapping :: "real \<Rightarrow> real \<Rightarrow> real \<Rightarrow> candidate \<Rightarrow> real \<times> real" where
  "inverse_mapping t0 d_t d_dm c = (dm c / d_dm, (time c - t0) / d_t)"

section \<open>The preprocessor\<close>

text \<open>
  The library routines of \<^verbatim>\<open>create_ellipses\<close>: the three filters of \<^verbatim>\<open>statistic_dict\<close>
  (each returns a new array), \<^verbatim>\<open>np.percentile\<close>, \<^verbatim>\<open>skimage.morphology.opening\<close> with the
  structuring element, and labelling with 8-connectivity followed by \<^verbatim>\<open>regionprops\<close>.
\<close>

record library =
  circular_mean :: "image \<Rightarrow> real \<Rightarrow> image"
  circular_median :: "image \<Rightarrow> real \<Rightarrow> image"
  gaussian_filter :: "image \<Rightarrow> real \<Rightarrow> image"
  percentile :: "real list \<Rightarrow> real \<Rightarrow> real"
  skimage_opening :: "image \<Rightarrow> image"
  regionprops :: "image \<Rightarrow> region_props list"

definition statistic_dict :: "library \<Rightarrow> string \<Rightarrow> (image \<Rightarrow> real \<Rightarrow> image) option" where
  "statistic_dict lib key =
     (if key = ''mean'' then Some (circular_mean lib)
      else if key = ''median'' then Some (circular_median lib)
      else if key = ''gauss'' then Some (gaussian_filter lib)
      else None)"

text \<open>\<^verbatim>\<open>np.mean\<close> of a 2D array, and the slice assignment
  \<^verbatim>\<open>tdm_image[bb[0]:bb[2], bb[1]:bb[3]] = v\<close> (a slice stops at the edge of the array).\<close>

definition np_mean :: "image \<Rightarrow> real" where
  "np_mean img = sum_list (ravel img) / real (length (ravel img))"

definition in_bbox :: "nat \<times> nat \<times> nat \<times> nat \<Rightarrow> nat \<Rightarrow> nat \<Rightarrow> bool" where
  "in_bbox bb r c \<longleftrightarrow>
     fst bb \<le> r \<and> r < fst (snd (snd bb)) \<and> fst (snd bb) \<le> c \<and> c < snd (snd (snd bb))"

definition fill_bbox :: "image \<Rightarrow> nat \<times> nat \<times> nat \<times> nat \<Rightarrow> real \<Rightarrow> image" where
  "fill_bbox img bb v =
     map (\<lambda>(r, row). map (\<lambda>(c, x). if in_bbox bb r c then v else x) (enumerate 0 row))
       (enumerate 0 img)"

text \<open>\<^verbatim>\<open>image[image < threshold] = 0\<close>.\<close>

definition zero_below :: "real \<Rightarrow> image \<Rightarrow> image" where
  "zero_below threshold img = map (map (\<lambda>v. if v < threshold then 0 else v)) img"

text \<open>Lines 345-354: the regions of the opened image with more than \<^verbatim>\<open>max_prop_size\<close>
  pixels. Lines 355-358: their bounding boxes are overwritten one after the other in
  \<^verbatim>\<open>tdm_image\<close>, each with \<^verbatim>\<open>np.mean(tdm_image)\<close> as it is at that moment.\<close>

definition big_sized_props :: "library \<Rightarrow> image \<Rightarrow> nat \<Rightarrow> region_props list" where
  "big_sized_props lib opened max_prop_size =
     filter (\<lambda>prop. area prop > max_prop_size) (regionprops lib opened)"

fun filter_out :: "image \<Rightarrow> region_props list \<Rightarrow> image" where
  "filter_out tdm_image [] = tdm_image"
| "filter_out tdm_image (prop # props) =
     filter_out (fill_bbox tdm_image (bbox prop) (np_mean tdm_image)) props"

text \<open>Lines 335-342: the filtered, thresholded and opened copy of the input.\<close>

definition opened_image :: "library \<Rightarrow> (image \<Rightarrow> real \<Rightarrow> image) \<Rightarrow> image \<Rightarrow> real \<Rightarrow> real \<Rightarrow> image" where
  "opened_image lib stat tdm_image disk_size perc =
     (let img = stat tdm_image disk_size;
          threshold = percentile lib (ravel img) perc;
          img = zero_below threshold img
      in skimage_opening lib img)"

text \<open>
  \<^verbatim>\<open>create_ellipses\<close>, lines 331-367. The first component of the result is the input
  array \<^verbatim>\<open>tdm_image\<close> as the call leaves it, the second is what the call returns or
  raises: \<^verbatim>\<open>KeyError\<close> for a statistic that is not in the dictionary, \<^verbatim>\<open>TypeError\<close> from
  \<^verbatim>\<open>np.percentile\<close> when both percentiles are \<^verbatim>\<open>None\<close>. The dictionary is read at line
  336 or, when \<^verbatim>\<open>threshold_big_perc\<close> is \<^verbatim>\<open>None\<close>, at line 360: in both cases before
  anything is written, so the model reads it once.
\<close>

definition create_ellipses ::
  "library \<Rightarrow> image \<Rightarrow> real \<Rightarrow> real option \<Rightarrow> real option \<Rightarrow> string \<Rightarrow> nat \<Rightarrow>
   image \<times> (error + image)" where
  "create_ellipses lib tdm_image disk_size threshold_big_perc threshold_perc statistic max_prop_size =
     (case statistic_dict lib statistic of
        None \<Rightarrow> (tdm_image, Inl KeyError)
      | Some stat \<Rightarrow>
          (let tdm_image =
                 (case threshold_big_perc of
                    None \<Rightarrow> tdm_image
                  | Some big \<Rightarrow>
                      filter_out tdm_image
                        (big_sized_props lib (opened_image lib stat tdm_image disk_size big)
                           max_prop_size));
               threshold_perc =
                 (case threshold_perc of None \<Rightarrow> threshold_big_perc | Some t \<Rightarrow> Some t)
           in case threshold_perc of
                None \<Rightarrow> (tdm_image, Inl TypeError)
              | Some perc \<Rightarrow> (tdm_image, Inr (opened_image lib stat tdm_image disk_size perc))))"

section \<open>The conditions as the specification words them\<close>

text \<open>
  Section 4.3 of the specification, the condition for \<^verbatim>\<open>NoIntensityRegionException\<close>:
  the patch, after the second-smallest unique value is subtracted and negative values are clipped to zero, holds no positive value (which
  includes a patch with fewer than two distinct values, where nothing can be subtracted).
\<close>

definition background_subtracted :: "image \<Rightarrow> image" where
  "background_subtracted data =
     map (map (\<lambda>v. max 0 (v - np_unique (ravel data) ! 1))) data"

definition spec_no_intensity :: "image \<Rightarrow> bool" where
  "spec_no_intensity data \<longleftrightarrow>
     length (np_unique (ravel data)) < 2 \<or>
     list_all (\<lambda>v. \<not> 0 < v) (ravel (background_subtracted data))"

text \<open>
  Section 4.5 of the specification, the ellipse-shape strategy: a fitted region is
  accepted when \<open>|x_stddev| > x_stddev_min\<close>, \<open>|x_stddev * cos theta| > x_cos_theta_min\<close>,
  \<open>|y_stddev / x_stddev| < y_to_x_stddev_max\<close>, \<open>amplitude > threshold\<close>, and the angle in
  degrees modulo 180 lies within \<open>[theta_min, theta_max]\<close>.
\<close>

definition spec_ell_accepts ::
  "gaussian2d \<Rightarrow> real \<Rightarrow> real \<Rightarrow> real \<Rightarrow> real \<times> real \<Rightarrow> real \<Rightarrow> bool" where
  "spec_ell_accepts gg x_stddev_min x_cos_theta_min y_to_x_stddev_max theta_range threshold \<longleftrightarrow>
     \<bar>x_stddev gg\<bar> > x_stddev_min \<and>
     \<bar>x_stddev gg * cos (theta gg)\<bar> > x_cos_theta_min \<and>
     \<bar>y_stddev gg / x_stddev gg\<bar> < y_to_x_stddev_max \<and>
     amplitude gg > threshold \<and>
     fst theta_range \<le> py_mod (rad2deg (theta gg)) 180 \<and>
     py_mod (rad2deg (theta gg)) 180 \<le> snd theta_range"

text \<open>
  Section 4.1 (d) of the specification with the mean taken once, from the input: in the
  array that the preprocessor leaves, every pixel inside the bounding box of an oversized
  region holds the mean of the input image.
\<close>

definition spec_boxes_hold_input_mean :: "image \<Rightarrow> image \<Rightarrow> region_props list \<Rightarrow> bool" where
  "spec_boxes_hold_input_mean tdm_image result regions \<longleftrightarrow>
     list_all (\<lambda>p. list_all (\<lambda>(r, c). in_bbox (bbox p) r c \<longrightarrow>
       result ! r ! c = np_mean tdm_image) (indices tdm_image)) regions"

section \<open>Notions used in the statements\<close>

text \<open>Height and width of the bounding box that \<^verbatim>\<open>find_objects\<close> gives for a label.\<close>

definition region_height :: "labeled \<Rightarrow> nat \<Rightarrow> nat" where
  "region_height lab l =
     (case find_object lab l of None \<Rightarrow> 0 | Some (rows, cols) \<Rightarrow> snd rows - fst rows)"

definition region_width :: "labeled \<Rightarrow> nat \<Rightarrow> nat" where
  "region_width lab l =
     (case find_object lab l of None \<Rightarrow> 0 | Some (rows, cols) \<Rightarrow> snd cols - fst cols)"

text \<open>What \<^verbatim>\<open>scipy.ndimage.label\<close> guarantees of its labelled array: every label from 1
  to the number of regions occurs.\<close>

definition labelled_without_gaps :: "labeled \<Rightarrow> bool" where
  "labelled_without_gaps lab \<longleftrightarrow>
     list_all (\<lambda>l. label_positions lab l \<noteq> []) [1..<Suc (num_features lab)]"

text \<open>The size test of the specification on the region with label \<open>l\<close>: its bounding box
  is higher than \<open>n_d_y\<close> and wider than \<open>n_d_x\<close>.\<close>

definition passes_size :: "labeled \<Rightarrow> real \<Rightarrow> real \<Rightarrow> nat \<Rightarrow> bool" where
  "passes_size lab n_d_x n_d_y l \<longleftrightarrow>
     n_d_y < real (region_height lab l) \<and> n_d_x < real (region_width lab l)"

text \<open>The regions that pass the size test, in the order of their labels, each as an
  object with the height and width of its bounding box and the answer of the
  maximum-position query for its label.\<close>

definition accepted_objects :: "tie_break \<Rightarrow> image \<Rightarrow> labeled \<Rightarrow> real \<Rightarrow> real \<Rightarrow> object list" where
  "accepted_objects pick img lab n_d_x n_d_y =
     map (\<lambda>l. \<lparr>label = l, dx = region_width lab l, dy = region_height lab l,
                max_pos = maximum_position pick img lab l\<rparr>)
       (filter (passes_size lab n_d_x n_d_y) [1..<Suc (num_features lab)])"

text \<open>The oversized regions that a call of \<^verbatim>\<open>create_ellipses\<close> finds in the opened
  image (none when \<^verbatim>\<open>threshold_big_perc\<close> is \<^verbatim>\<open>None\<close> or the statistic is unknown).\<close>

definition oversized_regions ::
  "library \<Rightarrow> image \<Rightarrow> real \<Rightarrow> real option \<Rightarrow> string \<Rightarrow> nat \<Rightarrow> region_props list" where
  "oversized_regions lib tdm_image disk_size threshold_big_perc statistic max_prop_size =
     (case (threshold_big_perc, statistic_dict lib statistic) of
        (Some big, Some stat) \<Rightarrow>
          big_sized_props lib (opened_image lib stat tdm_image disk_size big) max_prop_size
      | _ \<Rightarrow> [])"

section \<open>Example inputs\<close>

text \<open>
  A labelled array with two regions and an intensity image for it: region 1 is the
  two-by-two block on the left, with its largest intensity 5 at row 0, column 1; region 2
  is the single pixel at the lower right.
\<close>

definition two_regions :: labeled where
  "two_regions = [[1, 1, 0, 0], [1, 1, 0, 2]]"

definition two_regions_image :: image where
  "two_regions_image = [[1, 5, 0, 0], [2, 3, 0, 7]]"

text \<open>
  A labelled array with three rectangular regions whose bounding boxes have
  (height, width) = (10, 2), (5, 8) and (10, 5), numbered 1, 2, 3 from left to right.
\<close>

definition three_regions :: labeled where
  "three_regions =
     [[1, 1, 0, 2, 2, 2, 2, 2, 2, 2, 2, 0, 3, 3, 3, 3, 3],
      [1, 1, 0, 2, 2, 2, 2, 2, 2, 2, 2, 0, 3, 3, 3, 3, 3],
      [1, 1, 0, 2, 2, 2, 2, 2, 2, 2, 2, 0, 3, 3, 3, 3, 3],
      [1, 1, 0, 2, 2, 2, 2, 2, 2, 2, 2, 0, 3, 3, 3, 3, 3],
      [1, 1, 0, 2, 2, 2, 2, 2, 2, 2, 2, 0, 3, 3, 3, 3, 3],
      [1, 1, 0, 0, 0, 0, 0, 0, 0, 0, 0, 0, 3, 3, 3, 3, 3],
      [1, 1, 0, 0, 0, 0, 0, 0, 0, 0, 0, 0, 3, 3, 3, 3, 3],
      [1, 1, 0, 0, 0, 0, 0, 0, 0, 0, 0, 0, 3, 3, 3, 3, 3],
      [1, 1, 0, 0, 0, 0, 0, 0, 0, 0, 0, 0, 3, 3, 3, 3, 3],
      [1, 1, 0, 0, 0, 0, 0, 0, 0, 0, 0, 0, 3, 3, 3, 3, 3]]"

text \<open>
  An intensity image for the three regions: the intensity is 1, 2 and 3 in the regions,
  with one brighter pixel in each, at (4, 1), (2, 6) and (7, 14).
\<close>

definition three_regions_image :: image where
  "three_regions_image =
     [[1, 1, 0, 2, 2, 2, 2, 2, 2, 2, 2, 0, 3, 3, 3, 3, 3],
      [1, 1, 0, 2, 2, 2, 2, 2, 2, 2, 2, 0, 3, 3, 3, 3, 3],
      [1, 1, 0, 2, 2, 2, 8, 2, 2, 2, 2, 0, 3, 3, 3, 3, 3],
      [1, 1, 0, 2, 2, 2, 2, 2, 2, 2, 2, 0, 3, 3, 3, 3, 3],
      [1, 7, 0, 2, 2, 2, 2, 2, 2, 2, 2, 0, 3, 3, 3, 3, 3],
      [1, 1, 0, 0, 0, 0, 0, 0, 0, 0, 0, 0, 3, 3, 3, 3, 3],
      [1, 1, 0, 0, 0, 0, 0, 0, 0, 0, 0, 0, 3, 3, 3, 3, 3],
      [1, 1, 0, 0, 0, 0, 0, 0, 0, 0, 0, 0, 3, 3, 9, 3, 3],
      [1, 1, 0, 0, 0, 0, 0, 0, 0, 0, 0, 0, 3, 3, 3, 3, 3],
      [1, 1, 0, 0, 0, 0, 0, 0, 0, 0, 0, 0, 3, 3, 3, 3, 3]]"

text \<open>
  The library routines on the image \<open>[[5, 5, 0, 2, 2], [5, 5, 0, 2, 4]]\<close> when the call
  has \<^verbatim>\<open>disk_size=0\<close> (the disk is the pixel itself, so the filters return the image),
  a percentile of 0 (the smallest value, so nothing is set to zero) and a one-by-one
  structuring element (opening changes nothing): the opened image is the input, and
  its regions are the two blocks of four pixels left and right of the zero column.
\<close>

definition example_library :: library where
  "example_library =
     \<lparr>circular_mean = (\<lambda>img radius. img),
      circular_median = (\<lambda>img radius. img),
      gaussian_filter = (\<lambda>img sigma. img),
      percentile = (\<lambda>xs q. Min (set xs)),
      skimage_opening = (\<lambda>img. img),
      regionprops = (\<lambda>img. if img = [[5, 5, 0, 2, 2], [5, 5, 0, 2, 4]]
         then [\<lparr>bbox = (0, 0, 2, 2), area = 4, intensity_image = [[5, 5], [5, 5]]\<rparr>,
               \<lparr>bbox = (0, 3, 2, 5), area = 4, intensity_image = [[2, 2], [2, 4]]\<rparr>]
         else [])\<rparr>"




section \<open>Properties\<close>

subsection \<open>Auxiliary facts\<close>

lemma length_np_unique: "length (np_unique (xs :: 'a::linorder list)) = card (set xs)"
proof -
  have "sorted ys \<Longrightarrow> distinct (remdups_adj ys)" for ys :: "'a list"
    by (induction ys rule: remdups_adj.induct) (auto split: if_splits)
  then have "distinct (np_unique xs)"
    by (simp add: np_unique_def)
  then have "card (set (np_unique xs)) = length (np_unique xs)"
    by (rule distinct_card)
  then show ?thesis
    by (simp add: np_unique_def)
qed

lemma np_unique_sort: "np_unique (sort xs) = np_unique xs"
  by (simp add: np_unique_def sort_key_id_if_sorted)

text \<open>The only way \<^verbatim>\<open>fit_elliplse\<close> fails, and when.\<close>

lemma fit_elliplse_Inl_iff:
  "fit_elliplse fit_g r = Inl e \<longleftrightarrow>
     e = NoIntensityRegionException \<and> card (set (ravel (intensity_image r))) < 2"
  by (auto simp: fit_elliplse_def Let_def np_unique_sort length_np_unique split: prod.splits)

lemma fit_elliplse_cases:
  obtains "fit_elliplse fit_g r = Inl NoIntensityRegionException"
  | gg where "fit_elliplse fit_g r = Inr gg"
  by (cases "fit_elliplse fit_g r") (auto simp: fit_elliplse_Inl_iff)

text \<open>The label chosen as the largest cluster is the outlier label whenever no label
  is more frequent than it.\<close>

lemma largest_cluster_label_is_outlier:
  assumes "- 1 \<in> set labels" and "\<forall>l \<in> set labels. - 1 \<le> l"
    and "\<forall>l \<in> set labels. count_list labels l \<le> count_list labels (- 1)"
  shows "largest_cluster_label labels = - 1"
proof -
  let ?u = "np_unique labels"
  have set_u: "set ?u = set labels" and sorted_u: "sorted ?u"
    by (simp_all add: np_unique_def)
  then have "?u \<noteq> []" using assms(1) by auto
  then obtain x xs where u: "?u = x # xs" by (cases ?u) auto
  have "x \<in> set labels" using set_u u by auto
  moreover have "x \<le> - 1" using sorted_u u set_u assms(1) 
    by (metis set_ConsD sorted_simps(2) order_refl)
  ultimately have x: "x = - 1" using assms(2) by force
  have "Max (set (map (count_list labels) ?u)) = count_list labels (- 1)"
  proof (rule Max_eqI)
    show "finite (set (map (count_list labels) ?u))" by simp
    show "\<And>y. y \<in> set (map (count_list labels) ?u) \<Longrightarrow> y \<le> count_list labels (- 1)"
      using assms(3) set_u by auto
    show "count_list labels (- 1) \<in> set (map (count_list labels) ?u)"
      using assms(1) set_u by auto
  qed
  then have "np_argmax (map (count_list labels) ?u) = 0"
    unfolding np_argmax_def by (simp add: u x)
  then show ?thesis
    by (simp add: largest_cluster_label_def Let_def u x)
qed











text \<open>The slice assignment and the loop over the oversized regions.\<close>

lemma length_fill_bbox [simp]: "length (fill_bbox img bb v) = length img"
  by (simp add: fill_bbox_def)

lemma length_row_fill_bbox [simp]:
  "r < length img \<Longrightarrow> length (fill_bbox img bb v ! r) = length (img ! r)"
  by (simp add: fill_bbox_def nth_enumerate_eq)

lemma nth_fill_bbox:
  "r < length img \<Longrightarrow> c < length (img ! r) \<Longrightarrow>
   fill_bbox img bb v ! r ! c = (if in_bbox bb r c then v else img ! r ! c)"
  by (simp add: fill_bbox_def nth_enumerate_eq)

lemma length_filter_out [simp]: "length (filter_out img ps) = length img"
  by (induction ps arbitrary: img) simp_all

lemma length_row_filter_out [simp]:
  "r < length img \<Longrightarrow> length (filter_out img ps ! r) = length (img ! r)"
  by (induction ps arbitrary: img) simp_all

lemma filter_out_frame:
  "r < length img \<Longrightarrow> c < length (img ! r) \<Longrightarrow> \<forall>p \<in> set ps. \<not> in_bbox (bbox p) r c \<Longrightarrow>
   filter_out img ps ! r ! c = img ! r ! c"
  by (induction ps arbitrary: img) (simp_all add: nth_fill_bbox)

lemma filter_out_snoc:
  "filter_out img (ps @ [p]) =
     fill_bbox (filter_out img ps) (bbox p) (np_mean (filter_out img ps))"
  by (induction ps arbitrary: img) simp_all

lemma filter_out_append:
  "filter_out img (ps @ qs) = filter_out (filter_out img ps) qs"
  by (induction ps arbitrary: img) simp_all

lemma create_ellipses_tdm_image:
  "fst (create_ellipses lib tdm_image disk_size threshold_big_perc threshold_perc statistic
          max_prop_size) =
     filter_out tdm_image
       (oversized_regions lib tdm_image disk_size threshold_big_perc statistic max_prop_size)"
  by (simp add: create_ellipses_def oversized_regions_def Let_def split: option.splits)

lemma example_regions:
  "oversized_regions example_library [[5, 5, 0, 2, 2], [5, 5, 0, 2, 4]] 0 (Some 0) ''mean'' 3 =
     [\<lparr>bbox = (0, 0, 2, 2), area = 4, intensity_image = [[5, 5], [5, 5]]\<rparr>,
      \<lparr>bbox = (0, 3, 2, 5), area = 4, intensity_image = [[2, 2], [2, 4]]\<rparr>]"
  by (simp add: oversized_regions_def example_library_def statistic_dict_def big_sized_props_def
      opened_image_def zero_below_def ravel_def)

lemma example_result:
  "fst (create_ellipses example_library [[5, 5, 0, 2, 2], [5, 5, 0, 2, 4]] 0 (Some 0) None ''mean'' 3) =
     [[3, 3, 0, 11 / 5, 11 / 5], [3, 3, 0, 11 / 5, 11 / 5]]"
  by (simp add: create_ellipses_tdm_image example_regions fill_bbox_def in_bbox_def np_mean_def
      ravel_def enumerate_eq_zip)

text \<open>The maximum-position query: whatever pixel is picked among the maximal ones, it
  lies in the region and no pixel of the region is brighter.\<close>

lemma maximum_position_correct:
  assumes present: "label_positions lab l \<noteq> []"
    and pick: "\<forall>ps. ps \<noteq> [] \<longrightarrow> pick ps \<in> set ps"
  shows "maximum_position pick img lab l \<in> set (indices lab)"
    and "pixel lab (maximum_position pick img lab l) = l"
    and "\<forall>p \<in> set (indices lab). pixel lab p = l \<longrightarrow>
           pixel img p \<le> pixel img (maximum_position pick img lab l)"
proof -
  define ps where "ps = label_positions lab l"
  define top where "top = Max (set (map (pixel img) ps))"
  define best where "best = filter (\<lambda>p. pixel img p = top) ps"
  have mp: "maximum_position pick img lab l = pick best"
    by (simp add: maximum_position_def Let_def ps_def top_def best_def)
  have fin: "finite (set (map (pixel img) ps))" and ne: "set (map (pixel img) ps) \<noteq> {}"
    using present by (simp_all add: ps_def)
  have "top \<in> set (map (pixel img) ps)"
    unfolding top_def using fin ne by (rule Max_in)
  then have "best \<noteq> []"
    by (auto simp: best_def filter_empty_conv)
  then have "pick best \<in> set best"
    using pick by blast
  then have in_ps: "pick best \<in> set ps" and is_top: "pixel img (pick best) = top"
    by (simp_all add: best_def)
  from in_ps show "maximum_position pick img lab l \<in> set (indices lab)"
    and "pixel lab (maximum_position pick img lab l) = l"
    by (simp_all add: mp ps_def label_positions_def)
  show "\<forall>p \<in> set (indices lab). pixel lab p = l \<longrightarrow>
           pixel img p \<le> pixel img (maximum_position pick img lab l)"
  proof (intro ballI impI)
    fix p
    assume "p \<in> set (indices lab)" "pixel lab p = l"
    then have "pixel img p \<in> set (map (pixel img) ps)"
      by (simp add: ps_def label_positions_def)
    then have "pixel img p \<le> top"
      unfolding top_def using fin by (simp only: Max_ge)
    then show "pixel img p \<le> pixel img (maximum_position pick img lab l)"
      by (simp add: mp is_top)
  qed
qed

text \<open>The size-threshold search on a labelled array without gaps: it raises when no
  region passes the size test, and otherwise returns the passing regions, ranked.\<close>

lemma those_map_Some: "those (map Some xs) = Some xs"
  by (induction xs) simp_all

lemma search_objects_result:
  assumes gaps: "labelled_without_gaps lab"
  shows "search_objects pick img lab n_d_x n_d_y =
     (if accepted_objects pick img lab n_d_x n_d_y = [] then Inl ValueError
      else Inr (rev (sort_key (\<lambda>ob. (dy ob, dx ob))
                  (accepted_objects pick img lab n_d_x n_d_y))))"
proof -
  define ls where "ls = [1..<Suc (num_features lab)]"
  define objects where "objects = map (\<lambda>l. the (find_object lab l)) ls"
  have found: "find_object lab l \<noteq> None" if "l \<in> set ls" for l
  proof -
    from gaps that have "label_positions lab l \<noteq> []"
      by (simp add: labelled_without_gaps_def list_all_iff ls_def del: upt_Suc)
    then show ?thesis
      by (simp add: find_object_def split: list.splits)
  qed
  have "find_objects lab = map (find_object lab) ls"
    by (simp only: find_objects_def ls_def)
  also have "\<dots> = map Some objects"
    unfolding objects_def map_map using found by (intro map_cong [OF refl]) auto
  finally have "find_objects lab = map Some objects" .
  then have th: "those (find_objects lab) = Some objects"
    by (simp add: those_map_Some)
  have widths: "map (\<lambda>obj. snd (snd obj) - fst (snd obj)) objects = map (region_width lab) ls"
    unfolding objects_def map_map
  proof (rule map_cong [OF refl])
    fix l assume "l \<in> set ls"
    from found [OF this] show "((\<lambda>obj. snd (snd obj) - fst (snd obj)) \<circ>
        (\<lambda>l. the (find_object lab l))) l = region_width lab l"
      by (cases "find_object lab l") (simp_all add: region_width_def split: prod.splits)
  qed
  have heights: "map (\<lambda>obj. snd (fst obj) - fst (fst obj)) objects = map (region_height lab) ls"
    unfolding objects_def map_map
  proof (rule map_cong [OF refl])
    fix l assume "l \<in> set ls"
    from found [OF this] show "((\<lambda>obj. snd (fst obj) - fst (fst obj)) \<circ>
        (\<lambda>l. the (find_object lab l))) l = region_height lab l"
      by (cases "find_object lab l") (simp_all add: region_height_def split: prod.splits)
  qed
  have build: "map (\<lambda>(l, x, y). \<lparr>label = l, dx = x, dy = y, max_pos = (0, 0)\<rparr>)
      (zip ls (zip (map (region_width lab) ls) (map (region_height lab) ls))) =
    map (\<lambda>l. \<lparr>label = l, dx = region_width lab l, dy = region_height lab l, max_pos = (0, 0)\<rparr>) ls"
    by (rule nth_equalityI) simp_all
  have kept: "filter (\<lambda>ob. real (dy ob) > n_d_y \<and> real (dx ob) > n_d_x)
      (map (\<lambda>l. \<lparr>label = l, dx = region_width lab l, dy = region_height lab l,
                  max_pos = (0, 0)\<rparr>) ls) =
    map (\<lambda>l. \<lparr>label = l, dx = region_width lab l, dy = region_height lab l, max_pos = (0, 0)\<rparr>)
      (filter (passes_size lab n_d_x n_d_y) ls)"
    by (simp add: filter_map o_def passes_size_def [abs_def])
  have acc: "accepted_objects pick img lab n_d_x n_d_y =
    map (\<lambda>ob. ob\<lparr>max_pos := maximum_position pick img lab (label ob)\<rparr>)
      (map (\<lambda>l. \<lparr>label = l, dx = region_width lab l, dy = region_height lab l,
                  max_pos = (0, 0)\<rparr>) (filter (passes_size lab n_d_x n_d_y) ls))"
    by (simp add: accepted_objects_def ls_def o_def del: upt_Suc)
  show ?thesis
    unfolding search_objects_def th option.case Let_def ls_def [symmetric] widths heights
      build kept acc
    by simp
qed


lemma accepted_objects_labels:
  "map label (accepted_objects pick img lab n_d_x n_d_y) =
     filter (passes_size lab n_d_x n_d_y) [1..<Suc (num_features lab)]"
  by (simp add: accepted_objects_def o_def del: upt_Suc)

lemma search_candidates_of_objects:
  "search_objects pick img lab n_d_x n_d_y = Inr objs \<Longrightarrow>
   search_candidates pick img lab n_d_x n_d_y t_0 d_t d_dm =
     Inr (map (\<lambda>ob. candidate_builder t_0 d_t d_dm
                       (real (fst (max_pos ob)), real (snd (max_pos ob)))) objs)"
  by (simp add: search_candidates_def candidate_builder_def)

text \<open>The example arrays.\<close>

lemma two_regions_without_gaps: "labelled_without_gaps two_regions"
  by code_simp

lemma two_regions_objects:
  "search_objects last two_regions_image two_regions 1 1 =
     Inr [\<lparr>label = 1, dx = 2, dy = 2, max_pos = (0, 1)\<rparr>]"
  by code_simp

lemma two_regions_none:
  "search_objects last two_regions_image two_regions 3 3 = Inl ValueError"
  by code_simp

lemma last_picks: "\<forall>ps. ps \<noteq> [] \<longrightarrow> last ps \<in> set ps"
  by simp

lemma three_regions_without_gaps: "labelled_without_gaps three_regions"
  by code_simp

lemma three_regions_objects:
  "search_objects last three_regions_image three_regions 1 4 =
     Inr [\<lparr>label = 3, dx = 5, dy = 10, max_pos = (7, 14)\<rparr>,
          \<lparr>label = 1, dx = 2, dy = 10, max_pos = (4, 1)\<rparr>,
          \<lparr>label = 2, dx = 8, dy = 5, max_pos = (2, 6)\<rparr>]"
  by code_simp

lemma three_regions_boxes:
  "num_features three_regions = 3 \<and>
   region_height three_regions 1 = 10 \<and> region_width three_regions 1 = 2 \<and>
   region_height three_regions 2 = 5 \<and> region_width three_regions 2 = 8 \<and>
   region_height three_regions 3 = 10 \<and> region_width three_regions 3 = 5"
  by code_simp

subsection \<open>The ellipse fitter\<close>

text \<open>
  Claim C1, as the code has it: \<^verbatim>\<open>fit_elliplse\<close> raises \<^verbatim>\<open>NoIntensityRegionException\<close>
  exactly when the intensity patch of the region holds fewer than two distinct values;
  in particular it raises for a patch that is constant.
\<close>

theorem fit_elliplse_raises_iff:
  "(fit_elliplse fit_g r = Inl NoIntensityRegionException \<longleftrightarrow>
      card (set (ravel (intensity_image r))) < 2) \<and>
   (set (ravel (intensity_image r)) \<subseteq> {c} \<longrightarrow>
      fit_elliplse fit_g r = Inl NoIntensityRegionException)"
proof -
  have "card (set (ravel (intensity_image r))) < 2"
    if "set (ravel (intensity_image r)) \<subseteq> {c}"
  proof -
    have "card (set (ravel (intensity_image r))) \<le> card {c}"
      using that by (intro card_mono) auto
    then show ?thesis by simp
  qed
  then show ?thesis
    by (simp add: fit_elliplse_Inl_iff)
qed

text \<open>A constant two-by-two patch, with the solver that returns its initial model.\<close>

theorem fit_elliplse_raises_iff_witness:
  "fit_elliplse (\<lambda>g x_lims y_lims data. g)
     \<lparr>bbox = (0, 0, 2, 2), area = 4, intensity_image = [[5, 5], [5, 5]]\<rparr>
   = Inl NoIntensityRegionException \<and> card (set (ravel [[5, 5], [5, 5 :: real]])) < 2"
  using fit_elliplse_raises_iff [of "\<lambda>g x_lims y_lims data. g"
      "\<lparr>bbox = (0, 0, 2, 2), area = 4, intensity_image = [[5, 5], [5, 5]]\<rparr>" 5]
  by (simp add: ravel_def)

text \<open>
  A patch with exactly two levels, 3 and 5: subtracting the second-smallest value 5
  and clipping leaves only zeros, so the condition of the specification holds, and
  the code goes on to the fit instead of raising.
\<close>

theorem fit_elliplse_two_levels_counterexample:
  "\<not> (fit_elliplse (\<lambda>g x_lims y_lims data. g)
         \<lparr>bbox = (0, 0, 1, 2), area = 2, intensity_image = [[3, 5]]\<rparr>
        = Inl NoIntensityRegionException \<longleftrightarrow> spec_no_intensity [[3, 5]])"
  by (simp add: fit_elliplse_def spec_no_intensity_def background_subtracted_def np_unique_def
      ravel_def Let_def split: prod.splits)

subsection \<open>The amplitude threshold estimator\<close>

text \<open>
  Claim C2 asks that the population fitted with the Rayleigh distribution is the largest
  cluster that is not the outlier set. The code takes the most frequent label of all,
  the outlier label \<open>-1\<close> included: for the labels \<open>[0, 0, -1, -1, -1]\<close> (two amplitudes in
  cluster 0, three outliers; what DBSCAN answers for the amplitudes 1, 1, 5, 9, 13 with
  \<^verbatim>\<open>min_samples=2\<close> and \<^verbatim>\<open>eps=0.5\<close>) the label chosen is \<open>-1\<close>, the amplitudes selected for
  the fit are the three outliers, and the tail bound of the estimator is that of the
  Rayleigh fit to the outliers.
\<close>

theorem largest_cluster_label_outliers:
  "largest_cluster_label [0, 0, - 1, - 1, - 1] = - 1 \<and>
   select (\<lambda>l d. l = largest_cluster_label [0, 0, - 1, - 1, - 1])
     [0, 0, - 1, - 1, - 1] [1, 1, 5, 9, 13] = [5, 9, 13] \<and>
   find_clusters_ell_amplitudes (\<lambda>eps min_samples data. [0, 0, - 1, - 1, - 1]) rayleigh_tail
     [1, 1, 5, 9, 13] 2 (Some (1 / 2)) =
     (let indx = filter (\<lambda>d. d > rayleigh_tail [5, 9, 13]) [5, 9, 13]
      in if indx = [] then Inl ValueError else Inr (Min (set indx) - 1 / 2))"
  by (simp add: find_clusters_ell_amplitudes_def largest_cluster_label_def np_unique_def
      np_argmax_def select_def Let_def)

subsection \<open>The ellipse-shape search\<close>

text \<open>
  Claim C3 asks that the search returns its candidates when the amplitude threshold is
  supplied. In the code the histograms of lines 184-199 are drawn in every call and read
  the variable \<^verbatim>\<open>amplitudes\<close>, which is only bound when the threshold is estimated: with
  a supplied threshold the call raises \<^verbatim>\<open>UnboundLocalError\<close>, for every image.
\<close>

theorem search_candidates_ell_supplied_threshold:
  "search_candidates_ell fit_g dbscan rayleigh_tail props x_stddev_arg x_cos_theta y_to_x_stddev
     theta_lims t_0 d_t d_dm (Some a) = Inl UnboundLocalError"
  by (simp add: search_candidates_ell_def plot_histograms_def)

text \<open>
  Claim C4, as the code has it: the loop of the ellipse-shape search emits, in the order
  of the regions, one candidate for every region that can be fitted and whose fit has
  \<open>|x_stddev| > |x_stddev_min|\<close>, \<open>|x_stddev * cos theta| > x_cos_theta_min\<close>,
  \<open>|y_stddev / x_stddev| < y_to_x_stddev_max\<close>, \<open>amplitude > threshold\<close> and the angle in
  degrees modulo 180 strictly between \<open>theta_min\<close> and \<open>theta_max\<close>; no other region
  gives a candidate.
\<close>

theorem ell_loop_accepts:
  "ell_loop fit_g x_stddev_arg x_cos_theta y_to_x_stddev theta_lims t_0 d_t d_dm threshold props =
     Inr (concat (map (\<lambda>prop.
       case fit_elliplse fit_g prop of
         Inl e \<Rightarrow> []
       | Inr gg \<Rightarrow>
           if \<bar>x_stddev gg\<bar> > \<bar>x_stddev_arg\<bar> \<and>
              \<bar>x_stddev gg * cos (theta gg)\<bar> > x_cos_theta \<and>
              \<bar>y_stddev gg / x_stddev gg\<bar> < y_to_x_stddev \<and>
              amplitude gg > threshold \<and>
              fst theta_lims < py_mod (rad2deg (theta gg)) 180 \<and>
              py_mod (rad2deg (theta gg)) 180 < snd theta_lims
           then [\<lparr>time = t_0 + (y_mean gg + real (fst (snd (bbox prop)))) * d_t,
                  dm = (x_mean gg + real (fst (bbox prop))) * d_dm\<rparr>]
           else []) props))"
proof (induction props)
  case Nil
  then show ?case by simp
next
  case (Cons p ps)
  show ?case
  proof (cases rule: fit_elliplse_cases [of fit_g p])
    case 1
    then show ?thesis using Cons by simp
  next
    case (2 gg)
    then show ?thesis using Cons by (simp add: ell_accepts_def Let_def)
  qed
qed

text \<open>A fit that matches the description of the theorem, at a concrete region.\<close>

theorem ell_loop_accepts_witness:
  "ell_loop
     (\<lambda>g x_lims y_lims data.
        \<lparr>amplitude = 10, x_mean = 0, y_mean = 1, x_stddev = 10, y_stddev = 1, theta = pi / 2\<rparr>)
     6 (- 1) 0.3 (0, 180) 100 2 30 3
     [\<lparr>bbox = (4, 7, 5, 9), area = 2, intensity_image = [[1, 2]]\<rparr>] =
   Inr [\<lparr>time = 116, dm = 120\<rparr>]"
  using ell_loop_accepts [of
      "\<lambda>g x_lims y_lims data.
         \<lparr>amplitude = 10, x_mean = 0, y_mean = 1, x_stddev = 10, y_stddev = 1, theta = pi / 2\<rparr>"
      6 "- 1" "0.3" "(0, 180)" 100 2 30 3
      "[\<lparr>bbox = (4, 7, 5, 9), area = 2, intensity_image = [[1, 2]]\<rparr>]"]
  by (simp add: fit_elliplse_def np_unique_def ravel_def Let_def py_mod_def rad2deg_def
      split: prod.splits)

text \<open>
  A fit with the angle exactly at \<open>theta_min = 0\<close>: it meets the five conditions of the
  claim, the interval being closed there, and the loop rejects the region.
\<close>

theorem ell_accepts_closed_interval_counterexample:
  "spec_ell_accepts
     \<lparr>amplitude = 10, x_mean = 0, y_mean = 0, x_stddev = 10, y_stddev = 1, theta = 0\<rparr>
     6 3 0.3 (0, 180) 3 \<and>
   ell_loop
     (\<lambda>g x_lims y_lims data.
        \<lparr>amplitude = 10, x_mean = 0, y_mean = 0, x_stddev = 10, y_stddev = 1, theta = 0\<rparr>)
     6 3 0.3 (0, 180) 0 1 1 3
     [\<lparr>bbox = (0, 0, 1, 2), area = 2, intensity_image = [[1, 2]]\<rparr>] = Inr []"
  by (simp add: spec_ell_accepts_def ell_accepts_def py_mod_def rad2deg_def fit_elliplse_def
      np_unique_def ravel_def Let_def split: prod.splits)

subsection \<open>The candidate builder\<close>



subsection \<open>The preprocessor\<close>

text \<open>
  Claim C6, as the code has it: the oversized regions are taken one after the other, and
  all pixels of the bounding box of each are overwritten with the mean of the whole array
  as it is at that moment: \<^verbatim>\<open>np.mean(tdm_image)\<close> is evaluated anew for each region, on
  the array as the regions before it have left it (for the first oversized region this
  is the mean of the input). A pixel of the box that no later box covers still holds
  that value when the preprocessor is done.
\<close>

theorem oversized_regions_overwritten:
  assumes "k < length (oversized_regions lib tdm_image disk_size threshold_big_perc statistic max_prop_size)"
    and "r < length tdm_image" and "c < length (tdm_image ! r)"
    and "in_bbox (bbox (oversized_regions lib tdm_image disk_size threshold_big_perc statistic max_prop_size ! k)) r c"
  shows "filter_out tdm_image
           (take (Suc k) (oversized_regions lib tdm_image disk_size threshold_big_perc statistic max_prop_size))
           ! r ! c =
         np_mean (filter_out tdm_image
           (take k (oversized_regions lib tdm_image disk_size threshold_big_perc statistic max_prop_size))) \<and>
         ((\<forall>j. k < j \<and> j < length (oversized_regions lib tdm_image disk_size threshold_big_perc statistic
                                     max_prop_size) \<longrightarrow>
               \<not> in_bbox (bbox (oversized_regions lib tdm_image disk_size threshold_big_perc statistic
                                   max_prop_size ! j)) r c) \<longrightarrow>
          fst (create_ellipses lib tdm_image disk_size threshold_big_perc threshold_perc statistic max_prop_size)
            ! r ! c =
          np_mean (filter_out tdm_image
            (take k (oversized_regions lib tdm_image disk_size threshold_big_perc statistic max_prop_size))))"
proof -
  define regions where
    "regions = oversized_regions lib tdm_image disk_size threshold_big_perc statistic max_prop_size"
  define before where "before = filter_out tdm_image (take k regions)"
  define after where "after = filter_out tdm_image (take (Suc k) regions)"
  have k: "k < length regions" and box: "in_bbox (bbox (regions ! k)) r c"
    using assms by (simp_all add: regions_def)
  have "take (Suc k) regions = take k regions @ [regions ! k]"
    using k by (simp add: take_Suc_conv_app_nth)
  then have "after = fill_bbox before (bbox (regions ! k)) (np_mean before)"
    by (simp add: after_def before_def filter_out_snoc)
  then have step: "after ! r ! c = np_mean before"
    using assms(2,3) box by (simp add: nth_fill_bbox before_def)
  have final: "filter_out tdm_image regions ! r ! c = np_mean before"
    if later: "\<forall>j. k < j \<and> j < length regions \<longrightarrow> \<not> in_bbox (bbox (regions ! j)) r c"
  proof -
    have "\<forall>p \<in> set (drop (Suc k) regions). \<not> in_bbox (bbox p) r c"
    proof
      fix p
      assume "p \<in> set (drop (Suc k) regions)"
      then obtain i where "i < length (drop (Suc k) regions)" "p = drop (Suc k) regions ! i"
        by (auto simp: in_set_conv_nth)
      then show "\<not> in_bbox (bbox p) r c"
        using later by simp
    qed
    moreover have "filter_out tdm_image regions = filter_out after (drop (Suc k) regions)"
      unfolding after_def by (simp flip: filter_out_append)
    ultimately show ?thesis
      using assms(2,3) step by (simp add: filter_out_frame after_def)
  qed
  show ?thesis
    using step final
    by (simp add: create_ellipses_tdm_image after_def before_def regions_def)
qed

text \<open>
  The second of the two oversized regions of the example image: the mean of the input is
  3, the box of the first region is filled with 3, which lowers the mean to 11/5, and the
  box of the second region is filled with 11/5.
\<close>

theorem oversized_regions_overwritten_witness:
  "filter_out [[5, 5, 0, 2, 2], [5, 5, 0, 2, 4]]
     (take 2 (oversized_regions example_library [[5, 5, 0, 2, 2], [5, 5, 0, 2, 4]] 0 (Some 0)
                ''mean'' 3)) ! 0 ! 3 =
   np_mean (filter_out [[5, 5, 0, 2, 2], [5, 5, 0, 2, 4]]
     (take 1 (oversized_regions example_library [[5, 5, 0, 2, 2], [5, 5, 0, 2, 4]] 0 (Some 0)
                ''mean'' 3))) \<and>
   np_mean [[5, 5, 0, 2, 2], [5, 5, 0, 2, 4]] = 3 \<and>
   fst (create_ellipses example_library [[5, 5, 0, 2, 2], [5, 5, 0, 2, 4]] 0 (Some 0) None
          ''mean'' 3) = [[3, 3, 0, 11 / 5, 11 / 5], [3, 3, 0, 11 / 5, 11 / 5]]"
  using oversized_regions_overwritten [of 1 example_library "[[5, 5, 0, 2, 2], [5, 5, 0, 2, 4]]" 0
      "Some 0" "''mean''" 3 0 3 None]
  by (simp add: example_regions example_result in_bbox_def np_mean_def ravel_def)

text \<open>
  The same example against the claim with one mean for all boxes: the box of the second
  region holds 11/5 and not the mean 3 of the input.
\<close>

theorem second_region_counterexample:
  "fst (create_ellipses example_library [[5, 5, 0, 2, 2], [5, 5, 0, 2, 4]] 0 (Some 0) None
          ''mean'' 3) = [[3, 3, 0, 11 / 5, 11 / 5], [3, 3, 0, 11 / 5, 11 / 5]] \<and>
   np_mean [[5, 5, 0, 2, 2], [5, 5, 0, 2, 4]] = 3 \<and>
   \<not> spec_boxes_hold_input_mean [[5, 5, 0, 2, 2], [5, 5, 0, 2, 4]]
       (fst (create_ellipses example_library [[5, 5, 0, 2, 2], [5, 5, 0, 2, 4]] 0 (Some 0) None
               ''mean'' 3))
       (oversized_regions example_library [[5, 5, 0, 2, 2], [5, 5, 0, 2, 4]] 0 (Some 0)
          ''mean'' 3)"
  by (simp add: example_result example_regions spec_boxes_hold_input_mean_def indices_def
      in_bbox_def np_mean_def ravel_def)

text \<open>
  Claim C10: the array that the preprocessor leaves has the shape of the input and
  differs from it at most inside the bounding boxes of the oversized regions; with no
  oversized region it is the input.
\<close>

theorem create_ellipses_frame:
  "length (fst (create_ellipses lib tdm_image disk_size threshold_big_perc threshold_perc statistic max_prop_size))
     = length tdm_image \<and>
   (\<forall>r < length tdm_image.
      length (fst (create_ellipses lib tdm_image disk_size threshold_big_perc threshold_perc statistic
                     max_prop_size) ! r) = length (tdm_image ! r) \<and>
      (\<forall>c < length (tdm_image ! r).
         (\<forall>p \<in> set (oversized_regions lib tdm_image disk_size threshold_big_perc statistic max_prop_size).
            \<not> in_bbox (bbox p) r c) \<longrightarrow>
         fst (create_ellipses lib tdm_image disk_size threshold_big_perc threshold_perc statistic max_prop_size)
           ! r ! c = tdm_image ! r ! c)) \<and>
   (oversized_regions lib tdm_image disk_size threshold_big_perc statistic max_prop_size = [] \<longrightarrow>
      fst (create_ellipses lib tdm_image disk_size threshold_big_perc threshold_perc statistic max_prop_size)
        = tdm_image)"
  by (simp add: create_ellipses_tdm_image filter_out_frame)

text \<open>The zero column of the example image lies in neither box; with
  \<^verbatim>\<open>max_prop_size=4\<close> no region of the example is oversized.\<close>

theorem create_ellipses_frame_witness:
  "fst (create_ellipses example_library [[5, 5, 0, 2, 2], [5, 5, 0, 2, 4]] 0 (Some 0) None ''mean'' 3) ! 0 ! 2 = 0 \<and>
   fst (create_ellipses example_library [[5, 5, 0, 2, 2], [5, 5, 0, 2, 4]] 0 (Some 0) None ''mean'' 4)
     = [[5, 5, 0, 2, 2], [5, 5, 0, 2, 4]]"
proof -
  have none: "oversized_regions example_library [[5, 5, 0, 2, 2], [5, 5, 0, 2, 4]] 0 (Some 0) ''mean'' 4 = []"
    by (simp add: oversized_regions_def example_library_def statistic_dict_def
        big_sized_props_def opened_image_def zero_below_def ravel_def)
  show ?thesis
    using create_ellipses_frame [of example_library "[[5, 5, 0, 2, 2], [5, 5, 0, 2, 4]]" 0 "Some 0" None
        "''mean''" 3]
      create_ellipses_frame [of example_library "[[5, 5, 0, 2, 2], [5, 5, 0, 2, 4]]" 0 "Some 0" None
        "''mean''" 4]
    by (simp add: none example_regions in_bbox_def)
qed

subsection \<open>The size-threshold search\<close>

text \<open>
  Claim C7: on a labelled array as \<^verbatim>\<open>label\<close> returns it, whenever some region has a
  bounding box higher than \<open>n_d_y\<close> and wider than \<open>n_d_x\<close>, the search returns, and the
  objects it accepts are, without repetition, exactly the regions with such a box. The
  peak position reported for each, from which its candidate is built, is the answer of
  the maximum-position query for its label: a pixel of the region whose intensity is the
  largest in the region (whichever of them scipy picks when there are several). When no
  region has such a box, nothing is accepted: the call raises \<^verbatim>\<open>ValueError\<close> at line 145.
\<close>

theorem search_objects_accepts_and_peaks:
  assumes gaps: "labelled_without_gaps lab"
    and pick: "\<forall>ps. ps \<noteq> [] \<longrightarrow> pick ps \<in> set ps"
  shows "if \<exists>l \<in> {1..num_features lab}.
              n_d_y < real (region_height lab l) \<and> n_d_x < real (region_width lab l)
         then \<exists>objs.
           search_objects pick img lab n_d_x n_d_y = Inr objs \<and>
           search_candidates pick img lab n_d_x n_d_y t_0 d_t d_dm =
             Inr (map (\<lambda>ob. candidate_builder t_0 d_t d_dm
                               (real (fst (max_pos ob)), real (snd (max_pos ob)))) objs) \<and>
           label ` set objs =
             {l \<in> {1..num_features lab}.
                n_d_y < real (region_height lab l) \<and> n_d_x < real (region_width lab l)} \<and>
           distinct (map label objs) \<and>
           (\<forall>ob \<in> set objs.
              dy ob = region_height lab (label ob) \<and> dx ob = region_width lab (label ob) \<and>
              max_pos ob = maximum_position pick img lab (label ob) \<and>
              max_pos ob \<in> set (indices lab) \<and>
              pixel lab (max_pos ob) = label ob \<and>
              (\<forall>p \<in> set (indices lab).
                 pixel lab p = label ob \<longrightarrow> pixel img p \<le> pixel img (max_pos ob)))
         else search_objects pick img lab n_d_x n_d_y = Inl ValueError"
proof -
  let ?acc = "accepted_objects pick img lab n_d_x n_d_y"
  let ?objs = "rev (sort_key (\<lambda>ob. (dy ob, dx ob)) ?acc)"
  let ?passing = "{l \<in> {1..num_features lab}.
      n_d_y < real (region_height lab l) \<and> n_d_x < real (region_width lab l)}"
  have labels: "set (map label ?acc) = ?passing"
    unfolding accepted_objects_labels by (auto simp: passes_size_def simp del: upt_Suc)
  have empty: "?acc = [] \<longleftrightarrow> ?passing = {}"
    using labels by (metis map_is_Nil_conv set_empty)
  show ?thesis
  proof (cases "?passing = {}")
    case True
    then have "?acc = []" using empty by simp
    then have "search_objects pick img lab n_d_x n_d_y = Inl ValueError"
      by (simp add: search_objects_result [OF gaps])
    moreover from True have "\<not> (\<exists>l \<in> {1..num_features lab}.
        n_d_y < real (region_height lab l) \<and> n_d_x < real (region_width lab l))"
      by blast
    ultimately show ?thesis by simp
  next
    case False
    then have "?acc \<noteq> []" using empty by simp
    then have run: "search_objects pick img lab n_d_x n_d_y = Inr ?objs"
      by (simp add: search_objects_result [OF gaps])
    have set_objs: "set ?objs = set ?acc"
      by simp
    have "distinct (map label ?acc)"
      unfolding accepted_objects_labels by (simp del: upt_Suc)
    then have "distinct ?acc" and "inj_on label (set ?acc)"
      by (simp_all add: distinct_map)
    then have d: "distinct (map label ?objs)"
      by (simp add: distinct_map)
    have l: "label ` set ?objs = ?passing"
      using labels by simp
    have p: "dy ob = region_height lab (label ob) \<and> dx ob = region_width lab (label ob) \<and>
              max_pos ob = maximum_position pick img lab (label ob) \<and>
              max_pos ob \<in> set (indices lab) \<and>
              pixel lab (max_pos ob) = label ob \<and>
              (\<forall>p \<in> set (indices lab).
                 pixel lab p = label ob \<longrightarrow> pixel img p \<le> pixel img (max_pos ob))"
      if "ob \<in> set ?objs" for ob
    proof -
      from that obtain l where l: "l \<in> set [1..<Suc (num_features lab)]"
        and ob: "ob = \<lparr>label = l, dx = region_width lab l, dy = region_height lab l,
                       max_pos = maximum_position pick img lab l\<rparr>"
        unfolding set_objs accepted_objects_def by (auto simp del: upt_Suc)
      from gaps l have "label_positions lab l \<noteq> []"
        by (simp add: labelled_without_gaps_def list_all_iff del: upt_Suc)
      from maximum_position_correct [OF this pick, of img] show ?thesis
        by (simp add: ob)
    qed
    from False have some: "\<exists>l \<in> {1..num_features lab}.
        n_d_y < real (region_height lab l) \<and> n_d_x < real (region_width lab l)"
      by blast
    have "\<exists>objs.
           search_objects pick img lab n_d_x n_d_y = Inr objs \<and>
           search_candidates pick img lab n_d_x n_d_y t_0 d_t d_dm =
             Inr (map (\<lambda>ob. candidate_builder t_0 d_t d_dm
                               (real (fst (max_pos ob)), real (snd (max_pos ob)))) objs) \<and>
           label ` set objs = ?passing \<and>
           distinct (map label objs) \<and>
           (\<forall>ob \<in> set objs.
              dy ob = region_height lab (label ob) \<and> dx ob = region_width lab (label ob) \<and>
              max_pos ob = maximum_position pick img lab (label ob) \<and>
              max_pos ob \<in> set (indices lab) \<and>
              pixel lab (max_pos ob) = label ob \<and>
              (\<forall>p \<in> set (indices lab).
                 pixel lab p = label ob \<longrightarrow> pixel img p \<le> pixel img (max_pos ob)))"
      using run search_candidates_of_objects [OF run] l d p by blast
    with some show ?thesis by (simp only: if_True)
  qed
qed

text \<open>
  The two-region example: with thresholds 1 and 1 only the block on the left is accepted
  and its peak is the pixel of intensity 5; with thresholds 3 and 3 nothing is.
\<close>

theorem search_objects_accepts_and_peaks_witness:
  "search_objects last two_regions_image two_regions 1 1 =
     Inr [\<lparr>label = 1, dx = 2, dy = 2, max_pos = (0, 1)\<rparr>] \<and>
   search_candidates last two_regions_image two_regions 1 1 100 2 30 =
     Inr [\<lparr>time = 102, dm = 0\<rparr>] \<and>
   region_height two_regions 1 = 2 \<and> region_width two_regions 1 = 2 \<and>
   maximum_position last two_regions_image two_regions 1 = (0, 1) \<and>
   pixel two_regions (0, 1) = 1 \<and>
   search_objects last two_regions_image two_regions 3 3 = Inl ValueError"
proof -
  note inst = search_objects_accepts_and_peaks [OF two_regions_without_gaps last_picks,
      of _ _ two_regions_image]
  from inst [of 1 1 100 2 30] two_regions_objects
  have "search_candidates last two_regions_image two_regions 1 1 100 2 30 =
      Inr [candidate_builder 100 2 30 (0, 1)] \<and>
    region_height two_regions 1 = 2 \<and> region_width two_regions 1 = 2 \<and>
    maximum_position last two_regions_image two_regions 1 = (0, 1) \<and>
    pixel two_regions (0, 1) = 1"
    by (auto split: if_splits)
  then show ?thesis
    using two_regions_objects two_regions_none by (simp add: candidate_builder_def)
qed

text \<open>
  Claim C8: whenever the search returns, the objects it emits are the accepted regions
  (each once, with the height and width of its bounding box), sorted by falling height,
  those of equal height by falling width, and the candidates are emitted in that order.
  Three regions numbered 1, 2, 3 with (height, width) = (10, 2), (5, 8), (10, 5), all
  accepted, come out in the order 3, 1, 2, that is (10, 5), (10, 2), (5, 8).
\<close>

theorem search_objects_ranking:
  assumes gaps: "labelled_without_gaps lab"
  shows "(accepted_objects pick img lab n_d_x n_d_y \<noteq> [] \<longrightarrow>
          (\<exists>objs.
             search_objects pick img lab n_d_x n_d_y = Inr objs \<and>
             search_candidates pick img lab n_d_x n_d_y t_0 d_t d_dm =
               Inr (map (\<lambda>ob. candidate_builder t_0 d_t d_dm
                                 (real (fst (max_pos ob)), real (snd (max_pos ob)))) objs) \<and>
             mset objs = mset (accepted_objects pick img lab n_d_x n_d_y) \<and>
             (\<forall>ob \<in> set objs.
                dy ob = region_height lab (label ob) \<and> dx ob = region_width lab (label ob)) \<and>
             sorted_wrt (\<lambda>a b. dy a > dy b \<or> (dy a = dy b \<and> dx a \<ge> dx b)) objs)) \<and>
         (num_features lab = 3 \<and>
          region_height lab 1 = 10 \<and> region_width lab 1 = 2 \<and>
          region_height lab 2 = 5 \<and> region_width lab 2 = 8 \<and>
          region_height lab 3 = 10 \<and> region_width lab 3 = 5 \<and>
          n_d_y < 5 \<and> n_d_x < 2 \<longrightarrow>
          map_sum id (map (\<lambda>ob. (label ob, dy ob, dx ob)))
            (search_objects pick img lab n_d_x n_d_y) =
          Inr [(3, 10, 5), (1, 10, 2), (2, 5, 8)])"
proof (intro conjI impI)
  let ?acc = "accepted_objects pick img lab n_d_x n_d_y"
  let ?objs = "rev (sort_key (\<lambda>ob. (dy ob, dx ob)) ?acc)"
  assume "?acc \<noteq> []"
  then have run: "search_objects pick img lab n_d_x n_d_y = Inr ?objs"
    by (simp add: search_objects_result [OF gaps])
  have "sorted (map (\<lambda>ob. (dy ob, dx ob)) (rev ?objs))"
    by simp
  then have "sorted_wrt (\<lambda>a b. (dy b, dx b) \<le> (dy a, dx a)) ?objs"
    by (simp only: sorted_map sorted_wrt_rev)
  then have ranked: "sorted_wrt (\<lambda>a b. dy a > dy b \<or> (dy a = dy b \<and> dx a \<ge> dx b)) ?objs"
    by (rule sorted_wrt_mono_rel [rotated]) auto
  have fields: "\<forall>ob \<in> set ?objs.
      dy ob = region_height lab (label ob) \<and> dx ob = region_width lab (label ob)"
    by (auto simp: accepted_objects_def simp del: upt_Suc)
  have "mset ?objs = mset ?acc"
    by simp
  with run search_candidates_of_objects [OF run] fields ranked
  show "\<exists>objs.
      search_objects pick img lab n_d_x n_d_y = Inr objs \<and>
      search_candidates pick img lab n_d_x n_d_y t_0 d_t d_dm =
        Inr (map (\<lambda>ob. candidate_builder t_0 d_t d_dm
                          (real (fst (max_pos ob)), real (snd (max_pos ob)))) objs) \<and>
      mset objs = mset ?acc \<and>
      (\<forall>ob \<in> set objs.
         dy ob = region_height lab (label ob) \<and> dx ob = region_width lab (label ob)) \<and>
      sorted_wrt (\<lambda>a b. dy a > dy b \<or> (dy a = dy b \<and> dx a \<ge> dx b)) objs"
    by blast
next
  assume three: "num_features lab = 3 \<and>
          region_height lab 1 = 10 \<and> region_width lab 1 = 2 \<and>
          region_height lab 2 = 5 \<and> region_width lab 2 = 8 \<and>
          region_height lab 3 = 10 \<and> region_width lab 3 = 5 \<and>
          n_d_y < 5 \<and> n_d_x < 2"
  have upt: "[Suc 0..<4] = [Suc 0, 2, 3]"
    by code_simp
  have "accepted_objects pick img lab n_d_x n_d_y =
    [\<lparr>label = 1, dx = 2, dy = 10, max_pos = maximum_position pick img lab 1\<rparr>,
     \<lparr>label = 2, dx = 8, dy = 5, max_pos = maximum_position pick img lab 2\<rparr>,
     \<lparr>label = 3, dx = 5, dy = 10, max_pos = maximum_position pick img lab 3\<rparr>]"
    using three unfolding accepted_objects_def by (simp add: upt passes_size_def)
  then show "map_sum id (map (\<lambda>ob. (label ob, dy ob, dx ob)))
            (search_objects pick img lab n_d_x n_d_y) =
          Inr [(3, 10, 5), (1, 10, 2), (2, 5, 8)]"
    by (simp add: search_objects_result [OF gaps])
qed

text \<open>The three-region example, with the objects and the candidates written out.\<close>

theorem search_objects_ranking_witness:
  "search_objects last three_regions_image three_regions 1 4 =
     Inr [\<lparr>label = 3, dx = 5, dy = 10, max_pos = (7, 14)\<rparr>,
          \<lparr>label = 1, dx = 2, dy = 10, max_pos = (4, 1)\<rparr>,
          \<lparr>label = 2, dx = 8, dy = 5, max_pos = (2, 6)\<rparr>] \<and>
   search_candidates last three_regions_image three_regions 1 4 100 2 30 =
     Inr [\<lparr>time = 128, dm = 210\<rparr>, \<lparr>time = 102, dm = 120\<rparr>, \<lparr>time = 112, dm = 60\<rparr>] \<and>
   sorted_wrt (\<lambda>a b. dy a > dy b \<or> (dy a = dy b \<and> dx a \<ge> dx b))
     [\<lparr>label = 3, dx = 5, dy = 10, max_pos = (7, 14)\<rparr>,
      \<lparr>label = 1, dx = 2, dy = 10, max_pos = (4, 1)\<rparr>,
      \<lparr>label = 2, dx = 8, dy = 5, max_pos = (2, 6)\<rparr>]"
proof -
  have "accepted_objects last three_regions_image three_regions 1 4 \<noteq> []"
    by code_simp
  with search_objects_ranking [OF three_regions_without_gaps, of last three_regions_image 1 4
      100 2 30] three_regions_objects three_regions_boxes
  show ?thesis
    by (auto simp: candidate_builder_def)
qed

text \<open>
  Claim C9: when \<open>d_t\<close> and \<open>d_dm\<close> are not zero, the conversion followed by the inverse
  mapping \<open>row = dm / d_dm\<close>, \<open>col = (time - t0) / d_t\<close> gives every position \<open>(row, col)\<close>
  back, and mapping the candidates of the size-threshold search back gives the peak
  positions of its objects. In real arithmetic the round trip is exact, so it is within
  every tolerance.
\<close>

theorem position_round_trip:
  assumes "d_t \<noteq> 0" and "d_dm \<noteq> 0"
  shows "inverse_mapping t_0 d_t d_dm (candidate_builder t_0 d_t d_dm (row, col)) = (row, col) \<and>
         map_sum id (map (inverse_mapping t_0 d_t d_dm))
           (search_candidates pick img lab n_d_x n_d_y t_0 d_t d_dm) =
         map_sum id (map (\<lambda>ob. (real (fst (max_pos ob)), real (snd (max_pos ob)))))
           (search_objects pick img lab n_d_x n_d_y)"
  using assms
  by (cases "search_objects pick img lab n_d_x n_d_y")
    (simp_all add: search_candidates_def inverse_mapping_def candidate_builder_def o_def)

theorem position_round_trip_witness:
  "search_candidates last two_regions_image two_regions 1 1 100 2 30 =
     Inr [\<lparr>time = 102, dm = 0\<rparr>] \<and>
   map (inverse_mapping 100 2 30) [\<lparr>time = 102, dm = 0\<rparr>] = [(0, 1)] \<and>
   inverse_mapping 100 2 30 (candidate_builder 100 2 30 (7, 5)) = (7, 5)"
  using position_round_trip [of 2 30 100 7 5 last two_regions_image two_regions 1 1]
  by (simp add: search_candidates_def two_regions_objects)

end
